theory Spec2Isabelle
  imports Main "HOL-Library.Multiset"
begin

section \<open>Values read from the configuration\<close>

text \<open>
  The source is \<^verbatim>\<open>audio_preprocessing.py\<close>: the class \<^verbatim>\<open>AudioPreprocessor\<close> with
  \<^verbatim>\<open>_build_filter_chain\<close>, \<^verbatim>\<open>_process_single_file\<close> and \<^verbatim>\<open>process_audio_files\<close>.
  Isabelle names cannot start with an underscore, so the two private methods are
  \<open>build_filter_chain\<close> and \<open>process_single_file\<close> here.

  The numbers of the configuration (levels, threshold, ratio, attack, release) are only
  ever interpolated into an f-string. A YAML integer is an \<open>int\<close>, rendered in decimal as
  Python's \<^verbatim>\<open>str\<close> does; a YAML float is carried as the text \<^verbatim>\<open>str\<close> gives for it
  (floating point itself is outside HOL).
\<close>

datatype number = NInt int | NFloat string

fun str_nat :: "nat \<Rightarrow> string" where
  "str_nat n =
     (if n < 10 then [''0123456789'' ! n]
      else str_nat (n div 10) @ [''0123456789'' ! (n mod 10)])"

declare str_nat.simps [simp del]

definition str_int :: "int \<Rightarrow> string" where
  "str_int i = (if i < 0 then CHR ''-'' # str_nat (nat (- i)) else str_nat (nat i))"

fun py_str :: "number \<Rightarrow> string" where
  "py_str (NInt i) = str_int i"
| "py_str (NFloat r) = r"

text \<open>
  The value under the key \<^verbatim>\<open>strength\<close>, as the YAML loader can leave it. The code
  subscripts the dictionary (\<^verbatim>\<open>[...]["strength"]\<close>, line 200) and then uses the value
  as a dictionary key in \<^verbatim>\<open>strength_map.get(strength, "0.4")\<close> (line 209), so these
  states of the key differ: the key is absent from the document (\<open>Missing\<close>: the
  subscript raises KeyError); the key is there with a null value (\<open>Null\<close>: Python's
  None); it holds a string; it holds another scalar, a boolean or a number
  (\<open>Other_scalar\<close>: hashable, and equal to none of the string keys); or it holds a YAML
  sequence or mapping (\<open>Unhashable\<close>: a Python list or dict, for which the dictionary
  lookup raises TypeError).
\<close>

datatype yaml_value = Missing | Null | Str string | Other_scalar | Unhashable

text \<open>
  The exceptions the modelled code can meet. \<^verbatim>\<open>subprocess.run(..., check=True)\<close> raises
  CalledProcessError (a subclass of SubprocessError) on a non-zero exit status, and
  OSError (FileNotFoundError, PermissionError, ...; not a subclass of SubprocessError)
  when the child process cannot be started. A dictionary subscript with an absent key
  raises KeyError, a dictionary lookup with an unhashable key raises TypeError.
\<close>

datatype exn = KeyError string | TypeError | CalledProcessError int | OSError

fun is_SubprocessError :: "exn \<Rightarrow> bool" where
  "is_SubprocessError (CalledProcessError rc) = True"
| "is_SubprocessError (KeyError k) = False"
| "is_SubprocessError TypeError = False"
| "is_SubprocessError OSError = False"

text \<open>
  \<^verbatim>\<open>self.config\<close>: the nested dictionary, one field per leaf, named by its key path
  (\<^verbatim>\<open>config["preprocessing"]["eq"]["preset"]\<close> is \<open>preprocessing_eq_preset\<close>).
  The flags are booleans, the formats, codec, bitrate, directory, suffix and preset are
  strings, as in the default configuration of \<^verbatim>\<open>load_config\<close>.
\<close>

record config =
  output_format :: string
  output_directory :: string
  output_suffix :: string
  compression_enabled :: bool
  compression_format :: string
  compression_codec :: string
  compression_bitrate :: string
  preprocessing_noise_reduction_enabled :: bool
  preprocessing_noise_reduction_strength :: yaml_value
  preprocessing_normalization_enabled :: bool
  preprocessing_normalization_target_level :: number
  preprocessing_normalization_true_peak :: number
  preprocessing_compression_enabled :: bool
  preprocessing_compression_threshold :: number
  preprocessing_compression_ratio :: number
  preprocessing_compression_attack :: number
  preprocessing_compression_release :: number
  preprocessing_eq_enabled :: bool
  preprocessing_eq_preset :: string

text \<open>The defaults of \<^verbatim>\<open>load_config\<close> (lines 33-67), used when the file is not found.\<close>

definition default_config :: config where
  "default_config =
     \<lparr> output_format = ''wav'',
       output_directory = ''processed_audio'',
       output_suffix = ''_processed'',
       compression_enabled = True,
       compression_format = ''m4a'',
       compression_codec = ''aac'',
       compression_bitrate = ''128k'',
       preprocessing_noise_reduction_enabled = True,
       preprocessing_noise_reduction_strength = Str ''medium'',
       preprocessing_normalization_enabled = True,
       preprocessing_normalization_target_level = NInt (- 16),
       preprocessing_normalization_true_peak = NFloat ''-1.5'',
       preprocessing_compression_enabled = False,
       preprocessing_compression_threshold = NInt (- 20),
       preprocessing_compression_ratio = NInt 4,
       preprocessing_compression_attack = NInt 5,
       preprocessing_compression_release = NInt 50,
       preprocessing_eq_enabled = False,
       preprocessing_eq_preset = ''speech'' \<rparr>"

section \<open>The filter chain\<close>

text \<open>\<^verbatim>\<open>",".join(filters)\<close>.\<close>

fun join_comma :: "string list \<Rightarrow> string" where
  "join_comma [] = []"
| "join_comma [x] = x"
| "join_comma (x # y # ys) = x @ '','' @ join_comma (y # ys)"

text \<open>
  \<^verbatim>\<open>strength_map.get(strength, "0.4")\<close> (lines 203-209): the dictionary has the three
  string keys; every other hashable value, None included, gets the default; a list or a
  dict cannot be hashed, and the lookup raises TypeError.
\<close>

fun strength_map_get :: "yaml_value \<Rightarrow> exn + string" where
  "strength_map_get (Str s) =
     Inr (if s = ''low'' then ''0.2''
          else if s = ''medium'' then ''0.4''
          else if s = ''high'' then ''0.6''
          else ''0.4'')"
| "strength_map_get Unhashable = Inl TypeError"
| "strength_map_get v = Inr ''0.4''"

text \<open>
  The local list \<^verbatim>\<open>filters\<close> as it stands when control reaches line 252: it starts
  empty and each enabled block appends to it, in the order of the source text. The
  raises on the way are the subscript of an absent \<^verbatim>\<open>strength\<close> key and the lookup of
  an unhashable \<^verbatim>\<open>strength\<close> value.
\<close>

definition build_filters :: "config \<Rightarrow> exn + string list" where
  "build_filters c =
     (let filters = [] in
      case (if preprocessing_noise_reduction_enabled c then
              (case preprocessing_noise_reduction_strength c of
                 Missing \<Rightarrow> Inl (KeyError ''strength'')
               | strength \<Rightarrow>
                   (case strength_map_get strength of
                      Inl e \<Rightarrow> Inl e
                    | Inr noise_strength \<Rightarrow>
                        Inr (filters @ [''afftdn=nr='' @ noise_strength @ '':nf=-25''])))
            else Inr filters) of
        Inl e \<Rightarrow> Inl e
      | Inr filters \<Rightarrow>
         (let filters =
                (if preprocessing_normalization_enabled c then
                   filters @ [''loudnorm=I='' @ py_str (preprocessing_normalization_target_level c)
                                @ '':TP='' @ py_str (preprocessing_normalization_true_peak c)
                                @ '':LRA=7'']
                 else filters);
              filters =
                (if preprocessing_compression_enabled c then
                   filters @ [''acompressor=threshold='' @ py_str (preprocessing_compression_threshold c)
                                @ ''dB:ratio='' @ py_str (preprocessing_compression_ratio c)
                                @ '':attack='' @ py_str (preprocessing_compression_attack c)
                                @ '':release='' @ py_str (preprocessing_compression_release c)]
                 else filters);
              filters =
                (if preprocessing_eq_enabled c then
                   (if preprocessing_eq_preset c = ''speech'' then
                      filters @ [''equalizer=f=100:width_type=h:width=200:g=-3'',
                                 ''equalizer=f=300:width_type=h:width=200:g=2'',
                                 ''equalizer=f=1500:width_type=h:width=1000:g=3'',
                                 ''equalizer=f=4000:width_type=h:width=1000:g=1'',
                                 ''equalizer=f=8000:width_type=h:width=2000:g=-2'']
                    else if preprocessing_eq_preset c = ''music'' then
                      filters @ [''equalizer=f=60:width_type=h:width=100:g=1'',
                                 ''equalizer=f=300:width_type=h:width=200:g=0'',
                                 ''equalizer=f=1500:width_type=h:width=1000:g=1'',
                                 ''equalizer=f=6000:width_type=h:width=2000:g=2'']
                    else filters)
                 else filters)
          in Inr filters))"

text \<open>\<^verbatim>\<open>_build_filter_chain\<close> (lines 194-256): the list, joined unless it is empty.\<close>

definition build_filter_chain :: "config \<Rightarrow> exn + string" where
  "build_filter_chain c =
     (case build_filters c of
        Inl e \<Rightarrow> Inl e
      | Inr filters \<Rightarrow> Inr (if filters \<noteq> [] then join_comma filters else ''''))"

section \<open>Paths and the file system\<close>

text \<open>
  Paths are strings with \<open>/\<close> as the separator, already normalised (no trailing
  separator). \<^verbatim>\<open>Path.name\<close> is the last component; \<^verbatim>\<open>Path.stem\<close> is the name
  without its last suffix, where (pathlib, \<^verbatim>\<open>i = name.rfind('.')\<close>) the suffix is only
  cut when \<^verbatim>\<open>0 < i < len(name) - 1\<close>. \<^verbatim>\<open>output_dir / output_filename\<close> appends the
  file name to the directory.
\<close>

definition path_name :: "string \<Rightarrow> string" where
  "path_name p = rev (takeWhile (\<lambda>ch. ch \<noteq> CHR ''/'') (rev p))"

definition path_stem :: "string \<Rightarrow> string" where
  "path_stem p =
     (let name = path_name p;
          ext = rev (takeWhile (\<lambda>ch. ch \<noteq> CHR ''.'') (rev name))
      in if CHR ''.'' \<in> set name then
           (let i = length name - length ext - 1
            in if 0 < i \<and> i < length name - 1 then take i name else name)
         else name)"

definition path_join :: "string \<Rightarrow> string \<Rightarrow> string" where
  "path_join d n = d @ ''/'' @ n"

text \<open>
  The file system is the list of the paths that exist, each a regular file or a
  directory, in the order a directory scan yields them. \<^verbatim>\<open>Path.exists\<close>,
  \<^verbatim>\<open>Path.is_file\<close> and \<^verbatim>\<open>Path.is_dir\<close> read it.
\<close>

datatype kind = File | Dir

type_synonym filesystem = "(string \<times> kind) list"

definition path_exists :: "filesystem \<Rightarrow> string \<Rightarrow> bool" where
  "path_exists fsys p = (p \<in> set (map fst fsys))"

definition is_file :: "filesystem \<Rightarrow> string \<Rightarrow> bool" where
  "is_file fsys p = ((p, File) \<in> set fsys)"

definition is_dir :: "filesystem \<Rightarrow> string \<Rightarrow> bool" where
  "is_dir fsys p = ((p, Dir) \<in> set fsys)"

text \<open>
  \<^verbatim>\<open>input_path.glob(f"*{ext}")\<close> (line 102). The pattern has no separator, so it is
  matched against the names of the immediate entries of the directory only; \<open>*\<close>
  matches any run of characters, the empty one too, and the rest of the pattern is
  literal, so a name matches when it ends with \<open>ext\<close>, compared character by character
  (the POSIX behaviour). \<open>entry_name d p\<close> is the name of \<open>p\<close> when \<open>p\<close> is an immediate
  entry of \<open>d\<close>.
\<close>

definition entry_name :: "string \<Rightarrow> string \<Rightarrow> string option" where
  "entry_name d p =
     (let n = drop (length d + 1) p
      in if take (length d + 1) p = d @ ''/'' \<and> n \<noteq> [] \<and> CHR ''/'' \<notin> set n
         then Some n else None)"

definition ends_with :: "string \<Rightarrow> string \<Rightarrow> bool" where
  "ends_with ext n = (take (length ext) (rev n) = rev ext)"

definition glob_star :: "filesystem \<Rightarrow> string \<Rightarrow> string \<Rightarrow> string list" where
  "glob_star fsys d ext =
     filter (\<lambda>p. case entry_name d p of None \<Rightarrow> False | Some n \<Rightarrow> ends_with ext n)
       (map fst fsys)"

section \<open>The engine, the log and the state of a run\<close>

text \<open>
  The external engine (ffmpeg) is a parameter: what \<^verbatim>\<open>subprocess.run\<close> meets for a
  command, either a child that exits with a status or a child that cannot be started.
  A child that exits with status 0 has written its output file, the last argument of
  the command.
\<close>

datatype proc = Exit int | Launch_failure

type_synonym engine = "string list \<Rightarrow> proc"

text \<open>The lines the code sends to its logger, one constructor per call site.\<close>

datatype log_event =
    Info_Processing_file string
  | Info_Output_exists_Skipping string
  | Info_Running_FFmpeg "string list"
  | Info_Successfully_processed string
  | Error_processing string exn
  | Warning_No_audio_files string
  | Info_Found_audio_files nat
  | Error_File_processing_failed exn
  | Error_Input_path_does_not_exist string

record world =
  fs :: filesystem
  invocations :: "string list list"
  logs :: "log_event list"

definition emit :: "log_event \<Rightarrow> world \<Rightarrow> world" where
  "emit e w = w\<lparr>logs := logs w @ [e]\<rparr>"

definition create_file :: "string \<Rightarrow> filesystem \<Rightarrow> filesystem" where
  "create_file p fsys = (if path_exists fsys p then fsys else fsys @ [(p, File)])"

text \<open>
  \<^verbatim>\<open>subprocess.run(cmd, stdout=PIPE, stderr=PIPE, check=True)\<close> (lines 182-187): every
  call is recorded in \<open>invocations\<close>.
\<close>

definition subprocess_run :: "engine \<Rightarrow> string list \<Rightarrow> world \<Rightarrow> (exn + unit) \<times> world" where
  "subprocess_run eng cmd w =
     (let w = w\<lparr>invocations := invocations w @ [cmd]\<rparr>
      in case eng cmd of
           Launch_failure \<Rightarrow> (Inl OSError, w)
         | Exit rc \<Rightarrow>
             if rc = 0 then (Inr (), w\<lparr>fs := create_file (last cmd) (fs w)\<rparr>)
             else (Inl (CalledProcessError rc), w))"

section \<open>Processing one file\<close>

text \<open>
  \<^verbatim>\<open>_process_single_file\<close> (lines 123-192). The result is \<open>Inr (Some path)\<close> for a
  returned path, \<open>Inr None\<close> for \<^verbatim>\<open>return None\<close> and \<open>Inl e\<close> for an exception that
  leaves the method: the handler of line 190 catches SubprocessError only, and the call
  of \<^verbatim>\<open>_build_filter_chain\<close> (line 140) is outside the \<^verbatim>\<open>try\<close>.
\<close>

definition process_single_file ::
  "config \<Rightarrow> engine \<Rightarrow> string \<Rightarrow> world \<Rightarrow> (exn + string option) \<times> world" where
  "process_single_file c eng file_path w =
     (let output_dir = output_directory c;
          output_filename = path_stem file_path @ output_suffix c @ ''.'' @ output_format c;
          output_path = path_join output_dir output_filename;
          w = emit (Info_Processing_file file_path) w
      in if path_exists (fs w) output_path then
           (Inr (Some output_path), emit (Info_Output_exists_Skipping output_path) w)
         else
           case build_filter_chain c of
             Inl e \<Rightarrow> (Inl e, w)
           | Inr filter_chain \<Rightarrow>
              (let (output_path, encoding_options) =
                     (if compression_enabled c then
                        (if compression_format c \<noteq> output_format c then
                           path_join output_dir
                             (path_stem file_path @ output_suffix c @ ''.'' @ compression_format c)
                         else output_path,
                         [''-c:a'', compression_codec c, ''-b:a'', compression_bitrate c])
                      else
                        (output_path,
                         if output_format c = ''wav'' then [''-c:a'', ''pcm_s16le''] else []));
                   cmd = [''ffmpeg'', ''-i'', file_path];
                   cmd = (if filter_chain \<noteq> [] then cmd @ [''-filter_complex'', filter_chain]
                          else cmd);
                   cmd = cmd @ encoding_options;
                   cmd = cmd @ [''-y'', output_path];
                   w = emit (Info_Running_FFmpeg cmd) w
               in case subprocess_run eng cmd w of
                    (Inr u, w) \<Rightarrow>
                      (Inr (Some output_path), emit (Info_Successfully_processed output_path) w)
                  | (Inl e, w) \<Rightarrow>
                      if is_SubprocessError e then
                        (Inr None, emit (Error_processing file_path e) w)
                      else (Inl e, w)))"

section \<open>The batch driver\<close>

text \<open>
  \<^verbatim>\<open>process_audio_files\<close> (lines 90-121). The directory branch collects the matches
  extension by extension (lines 98-102) and submits one call per file to the pool
  (lines 111-119). The pool is modelled by one of its schedules, the calls running one
  after the other in the order of submission; an exception of a call is caught by the
  loop over the futures and logged (lines 116-119).
\<close>

definition audio_extensions :: "string list" where
  "audio_extensions = [''.wav'', ''.mp3'', ''.m4a'', ''.aac'', ''.ogg'', ''.flac'']"

definition audio_files :: "filesystem \<Rightarrow> string \<Rightarrow> string list" where
  "audio_files fsys input_path = concat (map (glob_star fsys input_path) audio_extensions)"

fun run_pool :: "config \<Rightarrow> engine \<Rightarrow> string list \<Rightarrow> world \<Rightarrow> world" where
  "run_pool c eng [] w = w"
| "run_pool c eng (file # files) w =
     (case process_single_file c eng file w of
        (Inl exc, w) \<Rightarrow> run_pool c eng files (emit (Error_File_processing_failed exc) w)
      | (Inr r, w) \<Rightarrow> run_pool c eng files w)"

definition process_audio_files ::
  "config \<Rightarrow> engine \<Rightarrow> string \<Rightarrow> world \<Rightarrow> (exn + unit) \<times> world" where
  "process_audio_files c eng input_path w =
     (if is_file (fs w) input_path then
        (case process_single_file c eng input_path w of
           (Inl e, w) \<Rightarrow> (Inl e, w)
         | (Inr r, w) \<Rightarrow> (Inr (), w))
      else if is_dir (fs w) input_path then
        (let files = audio_files (fs w) input_path
         in if files = [] then (Inr (), emit (Warning_No_audio_files input_path) w)
            else (Inr (), run_pool c eng files
                            (emit (Info_Found_audio_files (length files)) w)))
      else (Inr (), emit (Error_Input_path_does_not_exist input_path) w))"

section \<open>The vocabulary of the specification\<close>

text \<open>
  The stage expressions, the output path and the command as the specification names
  them. They are stated apart from the code above; the lemmas of the next section show
  that the code computes them.

  A band of the equaliser, from its centre frequency (Hz), its width (Hz) and its gain
  (dB), and the two presets as lists of bands; the reduction factor of a strength value
  (0.2 for \<open>low\<close>, 0.4 for \<open>medium\<close>, 0.6 for \<open>high\<close>, 0.4 for anything else).
\<close>

definition eq_band :: "int \<Rightarrow> int \<Rightarrow> int \<Rightarrow> string" where
  "eq_band f width g =
     ''equalizer=f='' @ str_int f @ '':width_type=h:width='' @ str_int width @ '':g='' @ str_int g"

definition reduction_factor :: "yaml_value \<Rightarrow> string" where
  "reduction_factor v =
     (if v = Str ''low'' then ''0.2''
      else if v = Str ''medium'' then ''0.4''
      else if v = Str ''high'' then ''0.6''
      else ''0.4'')"

definition noise_reduction_expr :: "config \<Rightarrow> string" where
  "noise_reduction_expr c =
     ''afftdn=nr='' @ reduction_factor (preprocessing_noise_reduction_strength c) @ '':nf=-25''"

definition normalization_expr :: "config \<Rightarrow> string" where
  "normalization_expr c =
     ''loudnorm=I='' @ py_str (preprocessing_normalization_target_level c)
       @ '':TP='' @ py_str (preprocessing_normalization_true_peak c) @ '':LRA=7''"

definition compressor_expr :: "config \<Rightarrow> string" where
  "compressor_expr c =
     ''acompressor=threshold='' @ py_str (preprocessing_compression_threshold c)
       @ ''dB:ratio='' @ py_str (preprocessing_compression_ratio c)
       @ '':attack='' @ py_str (preprocessing_compression_attack c)
       @ '':release='' @ py_str (preprocessing_compression_release c)"

definition speech_bands :: "string list" where
  "speech_bands = [eq_band 100 200 (- 3), eq_band 300 200 2, eq_band 1500 1000 3,
                   eq_band 4000 1000 1, eq_band 8000 2000 (- 2)]"

definition music_bands :: "string list" where
  "music_bands = [eq_band 60 100 1, eq_band 300 200 0, eq_band 1500 1000 1, eq_band 6000 2000 2]"

definition equalizer_exprs :: "config \<Rightarrow> string list" where
  "equalizer_exprs c =
     (if preprocessing_eq_preset c = ''speech'' then speech_bands
      else if preprocessing_eq_preset c = ''music'' then music_bands
      else [])"

text \<open>
  The path the skip test reads (base output format), the format and the path the
  engine writes to, the encoding options and the whole command line.
\<close>

definition base_output_path :: "config \<Rightarrow> string \<Rightarrow> string" where
  "base_output_path c file_path =
     path_join (output_directory c) (path_stem file_path @ output_suffix c @ ''.'' @ output_format c)"

definition target_format :: "config \<Rightarrow> string" where
  "target_format c =
     (if compression_enabled c \<and> compression_format c \<noteq> output_format c
      then compression_format c else output_format c)"

definition target_filename :: "config \<Rightarrow> string \<Rightarrow> string" where
  "target_filename c file_path = path_stem file_path @ output_suffix c @ ''.'' @ target_format c"

definition target_output_path :: "config \<Rightarrow> string \<Rightarrow> string" where
  "target_output_path c file_path = path_join (output_directory c) (target_filename c file_path)"

definition encoding_options :: "config \<Rightarrow> string list" where
  "encoding_options c =
     (if compression_enabled c then [''-c:a'', compression_codec c, ''-b:a'', compression_bitrate c]
      else if output_format c = ''wav'' then [''-c:a'', ''pcm_s16le'']
      else [])"

definition engine_command :: "config \<Rightarrow> string \<Rightarrow> string \<Rightarrow> string list" where
  "engine_command c file_path chain =
     [''ffmpeg'', ''-i'', file_path]
       @ (if chain \<noteq> [] then [''-filter_complex'', chain] else [])
       @ encoding_options c
       @ [''-y'', target_output_path c file_path]"

text \<open>
  A call of \<^verbatim>\<open>_process_single_file\<close> was a skip when it returned a path and started no
  engine. \<open>tasks_started\<close> reads off a log the files whose processing was begun, in
  order. \<open>selected d p\<close>: \<open>p\<close> is an immediate entry of the directory \<open>d\<close> and its name
  ends with one of the six audio extensions.
\<close>

definition skipped :: "world \<Rightarrow> (exn + string option) \<times> world \<Rightarrow> bool" where
  "skipped w r =
     (case fst r of
        Inr (Some p) \<Rightarrow> invocations (snd r) = invocations w
      | _ \<Rightarrow> False)"

fun started :: "log_event \<Rightarrow> string list" where
  "started (Info_Processing_file f) = [f]"
| "started e = []"

definition tasks_started :: "log_event list \<Rightarrow> string list" where
  "tasks_started l = concat (map started l)"



text \<open>
  Python's \<^verbatim>\<open>s.split(",")\<close>: the pieces of a string between its commas, used to read a
  compiled chain back into its filters.
\<close>

fun split_comma :: "string \<Rightarrow> string list" where
  "split_comma [] = [[]]"
| "split_comma (ch # s) =
     (if ch = CHR '','' then [] # split_comma s
      else (case split_comma s of [] \<Rightarrow> [[ch]] | x # xs \<Rightarrow> (ch # x) # xs))"

section \<open>The code computes the vocabulary\<close>

lemma split_comma_no_comma:
  "CHR '','' \<notin> set x \<Longrightarrow> split_comma x = [x]"
  by (induction x) auto

lemma split_comma_append:
  "CHR '','' \<notin> set x \<Longrightarrow> split_comma (x @ CHR '','' # s) = x # split_comma s"
  by (induction x) auto

lemma split_comma_join_comma:
  "xs \<noteq> [] \<Longrightarrow> \<forall>x \<in> set xs. CHR '','' \<notin> set x \<Longrightarrow> split_comma (join_comma xs) = xs"
proof (induction xs rule: join_comma.induct)
  case 1
  then show ?case by simp
next
  case (2 x)
  then show ?case by (simp add: split_comma_no_comma)
next
  case (3 x y ys)
  then show ?case by (simp add: split_comma_append)
qed


lemma speech_bands_text:
  "speech_bands = [''equalizer=f=100:width_type=h:width=200:g=-3'',
                   ''equalizer=f=300:width_type=h:width=200:g=2'',
                   ''equalizer=f=1500:width_type=h:width=1000:g=3'',
                   ''equalizer=f=4000:width_type=h:width=1000:g=1'',
                   ''equalizer=f=8000:width_type=h:width=2000:g=-2'']"
  by (simp add: speech_bands_def eq_band_def str_int_def str_nat.simps)

lemma music_bands_text:
  "music_bands = [''equalizer=f=60:width_type=h:width=100:g=1'',
                  ''equalizer=f=300:width_type=h:width=200:g=0'',
                  ''equalizer=f=1500:width_type=h:width=1000:g=1'',
                  ''equalizer=f=6000:width_type=h:width=2000:g=2'']"
  by (simp add: music_bands_def eq_band_def str_int_def str_nat.simps)

lemma build_filters_stages:
  "build_filters c =
     (if preprocessing_noise_reduction_enabled c
         \<and> preprocessing_noise_reduction_strength c = Missing
      then Inl (KeyError ''strength'')
      else if preprocessing_noise_reduction_enabled c
         \<and> preprocessing_noise_reduction_strength c = Unhashable
      then Inl TypeError
      else Inr ((if preprocessing_noise_reduction_enabled c then [noise_reduction_expr c] else [])
              @ (if preprocessing_normalization_enabled c then [normalization_expr c] else [])
              @ (if preprocessing_compression_enabled c then [compressor_expr c] else [])
              @ (if preprocessing_eq_enabled c then equalizer_exprs c else [])))"
  by (cases "preprocessing_noise_reduction_strength c")
     (simp_all add: build_filters_def noise_reduction_expr_def reduction_factor_def
        normalization_expr_def compressor_expr_def equalizer_exprs_def speech_bands_text
        music_bands_text)

lemma fs_emit [simp]: "fs (emit e w) = fs w"
  by (simp add: emit_def)

lemma invocations_emit [simp]: "invocations (emit e w) = invocations w"
  by (simp add: emit_def)

lemma logs_emit [simp]: "logs (emit e w) = logs w @ [e]"
  by (simp add: emit_def)

lemma process_single_file_skip:
  assumes "path_exists (fs w) (base_output_path c f)"
  shows "process_single_file c eng f w =
           (Inr (Some (base_output_path c f)),
            emit (Info_Output_exists_Skipping (base_output_path c f))
              (emit (Info_Processing_file f) w))"
  using assms by (simp add: process_single_file_def base_output_path_def Let_def)

lemma process_single_file_chain_error:
  assumes "\<not> path_exists (fs w) (base_output_path c f)" and "build_filter_chain c = Inl e"
  shows "process_single_file c eng f w = (Inl e, emit (Info_Processing_file f) w)"
  using assms by (simp add: process_single_file_def base_output_path_def Let_def)

lemma last_engine_command [simp]: "last (engine_command c f chain) = target_output_path c f"
  by (simp add: engine_command_def)

lemma process_single_file_run:
  assumes "\<not> path_exists (fs w) (base_output_path c f)" and "build_filter_chain c = Inr chain"
  shows "process_single_file c eng f w =
           (let cmd = engine_command c f chain;
                w1 = emit (Info_Running_FFmpeg cmd) (emit (Info_Processing_file f) w);
                w2 = w1\<lparr>invocations := invocations w1 @ [cmd]\<rparr>
            in case eng cmd of
                 Launch_failure \<Rightarrow> (Inl OSError, w2)
               | Exit rc \<Rightarrow>
                   if rc = 0 then
                     (Inr (Some (target_output_path c f)),
                      emit (Info_Successfully_processed (target_output_path c f))
                        (w2\<lparr>fs := create_file (target_output_path c f) (fs w2)\<rparr>))
                   else (Inr None, emit (Error_processing f (CalledProcessError rc)) w2))"
proof -
  have cmd: "engine_command c f chain =
      (if chain \<noteq> [] then [''ffmpeg'', ''-i'', f] @ [''-filter_complex'', chain]
       else [''ffmpeg'', ''-i'', f]) @ encoding_options c @ [''-y'', target_output_path c f]"
    by (simp add: engine_command_def)
  show ?thesis
    using assms
    unfolding cmd
    by (cases "eng ((if chain \<noteq> [] then [''ffmpeg'', ''-i'', f] @ [''-filter_complex'', chain]
       else [''ffmpeg'', ''-i'', f]) @ encoding_options c @ [''-y'', target_output_path c f])")
       (auto simp add: process_single_file_def base_output_path_def Let_def subprocess_run_def
        encoding_options_def target_output_path_def target_filename_def target_format_def)
qed

lemma invocations_process_single_file_run:
  assumes "\<not> path_exists (fs w) (base_output_path c f)" and "build_filter_chain c = Inr chain"
  shows "invocations (snd (process_single_file c eng f w)) = invocations w @ [engine_command c f chain]"
  using assms
  by (cases "eng (engine_command c f chain)")
     (simp_all add: process_single_file_run Let_def)

lemma success_process_single_file_run:
  assumes "\<not> path_exists (fs w) (base_output_path c f)" and "build_filter_chain c = Inr chain"
    and "eng (engine_command c f chain) = Exit 0"
  shows "fst (process_single_file c eng f w) = Inr (Some (target_output_path c f))
       \<and> path_exists (fs (snd (process_single_file c eng f w))) (target_output_path c f)"
  using assms
  by (simp add: process_single_file_run Let_def create_file_def path_exists_def)

lemma eval_paths:
  "base_output_path default_config ''in/clip.wav'' = ''processed_audio/clip_processed.wav''"
  "target_output_path default_config ''in/clip.wav'' = ''processed_audio/clip_processed.m4a''"
  "path_stem ''in/clip.wav'' = ''clip''"
  by (simp_all add: base_output_path_def target_output_path_def target_filename_def
      target_format_def default_config_def path_join_def path_stem_def path_name_def Let_def)

text \<open>The facts that evaluate a chain at a concrete configuration.\<close>

lemmas eval_chain = build_filter_chain_def build_filters_def default_config_def str_int_def
  str_nat.simps noise_reduction_expr_def reduction_factor_def normalization_expr_def
  compressor_expr_def
  equalizer_exprs_def speech_bands_text music_bands_text

section \<open>The filter-chain compiler\<close>

text \<open>
  Claim C5 (fixed stage order). Whenever \<^verbatim>\<open>_build_filter_chain\<close> returns, its result is
  the comma-joined list of the expressions of the enabled stages, in the order noise
  reduction, normalization, dynamic-range compression, equalization; the configuration
  is a record, so the order in which the document lists the flags plays no part. When
  exactly one stage is enabled the result is that stage's expression alone, with
  nothing before or after it (for the equaliser: its bands, joined).
\<close>

theorem filter_chain_stage_order:
  assumes "build_filter_chain c = Inr chain"
  shows "\<exists>stages.
           stages =
             (if preprocessing_noise_reduction_enabled c then [noise_reduction_expr c] else [])
           @ (if preprocessing_normalization_enabled c then [normalization_expr c] else [])
           @ (if preprocessing_compression_enabled c then [compressor_expr c] else [])
           @ (if preprocessing_eq_enabled c then equalizer_exprs c else [])
         \<and> chain = join_comma stages
         \<and> (stages \<noteq> [] \<and> (\<forall>x \<in> set stages. CHR '','' \<notin> set x) \<longrightarrow>
              split_comma chain = stages)
         \<and> (preprocessing_noise_reduction_enabled c \<and> \<not> preprocessing_normalization_enabled c
              \<and> \<not> preprocessing_compression_enabled c \<and> \<not> preprocessing_eq_enabled c
            \<longrightarrow> chain = noise_reduction_expr c)
         \<and> (\<not> preprocessing_noise_reduction_enabled c \<and> preprocessing_normalization_enabled c
              \<and> \<not> preprocessing_compression_enabled c \<and> \<not> preprocessing_eq_enabled c
            \<longrightarrow> chain = normalization_expr c)
         \<and> (\<not> preprocessing_noise_reduction_enabled c \<and> \<not> preprocessing_normalization_enabled c
              \<and> preprocessing_compression_enabled c \<and> \<not> preprocessing_eq_enabled c
            \<longrightarrow> chain = compressor_expr c)
         \<and> (\<not> preprocessing_noise_reduction_enabled c \<and> \<not> preprocessing_normalization_enabled c
              \<and> \<not> preprocessing_compression_enabled c \<and> preprocessing_eq_enabled c
            \<longrightarrow> chain = join_comma (equalizer_exprs c))"
proof -
  let ?stages =
    "(if preprocessing_noise_reduction_enabled c then [noise_reduction_expr c] else [])
     @ (if preprocessing_normalization_enabled c then [normalization_expr c] else [])
     @ (if preprocessing_compression_enabled c then [compressor_expr c] else [])
     @ (if preprocessing_eq_enabled c then equalizer_exprs c else [])"
  have filters: "build_filters c = Inr ?stages"
    using assms
    by (auto simp add: build_filter_chain_def build_filters_stages split: if_splits)
  then have chain: "chain = join_comma ?stages"
    using assms by (auto simp add: build_filter_chain_def split: if_splits)
  have split: "split_comma chain = ?stages"
    if "?stages \<noteq> [] \<and> (\<forall>x \<in> set ?stages. CHR '','' \<notin> set x)"
    unfolding chain using that by (intro split_comma_join_comma) blast+
  have single:
    "preprocessing_noise_reduction_enabled c \<and> \<not> preprocessing_normalization_enabled c
       \<and> \<not> preprocessing_compression_enabled c \<and> \<not> preprocessing_eq_enabled c
     \<longrightarrow> chain = noise_reduction_expr c"
    "\<not> preprocessing_noise_reduction_enabled c \<and> preprocessing_normalization_enabled c
       \<and> \<not> preprocessing_compression_enabled c \<and> \<not> preprocessing_eq_enabled c
     \<longrightarrow> chain = normalization_expr c"
    "\<not> preprocessing_noise_reduction_enabled c \<and> \<not> preprocessing_normalization_enabled c
       \<and> preprocessing_compression_enabled c \<and> \<not> preprocessing_eq_enabled c
     \<longrightarrow> chain = compressor_expr c"
    "\<not> preprocessing_noise_reduction_enabled c \<and> \<not> preprocessing_normalization_enabled c
       \<and> \<not> preprocessing_compression_enabled c \<and> preprocessing_eq_enabled c
     \<longrightarrow> chain = join_comma (equalizer_exprs c)"
    unfolding chain by simp_all
  from chain split single show ?thesis
    by (intro exI [of _ ?stages] conjI) (rule refl, assumption, blast, assumption+)
qed

theorem filter_chain_stage_order_witness:
  "build_filter_chain
     (default_config\<lparr>preprocessing_compression_enabled := True, preprocessing_eq_enabled := True\<rparr>)
     = Inr (''afftdn=nr=0.4:nf=-25,loudnorm=I=-16:TP=-1.5:LRA=7,''
            @ ''acompressor=threshold=-20dB:ratio=4:attack=5:release=50,''
            @ ''equalizer=f=100:width_type=h:width=200:g=-3,''
            @ ''equalizer=f=300:width_type=h:width=200:g=2,''
            @ ''equalizer=f=1500:width_type=h:width=1000:g=3,''
            @ ''equalizer=f=4000:width_type=h:width=1000:g=1,''
            @ ''equalizer=f=8000:width_type=h:width=2000:g=-2'')
   \<and> split_comma (''afftdn=nr=0.4:nf=-25,loudnorm=I=-16:TP=-1.5:LRA=7,''
            @ ''acompressor=threshold=-20dB:ratio=4:attack=5:release=50,''
            @ ''equalizer=f=100:width_type=h:width=200:g=-3,''
            @ ''equalizer=f=300:width_type=h:width=200:g=2,''
            @ ''equalizer=f=1500:width_type=h:width=1000:g=3,''
            @ ''equalizer=f=4000:width_type=h:width=1000:g=1,''
            @ ''equalizer=f=8000:width_type=h:width=2000:g=-2'')
     = [''afftdn=nr=0.4:nf=-25'', ''loudnorm=I=-16:TP=-1.5:LRA=7'',
        ''acompressor=threshold=-20dB:ratio=4:attack=5:release=50'',
        ''equalizer=f=100:width_type=h:width=200:g=-3'',
        ''equalizer=f=300:width_type=h:width=200:g=2'',
        ''equalizer=f=1500:width_type=h:width=1000:g=3'',
        ''equalizer=f=4000:width_type=h:width=1000:g=1'',
        ''equalizer=f=8000:width_type=h:width=2000:g=-2'']
   \<and> build_filter_chain (default_config\<lparr>preprocessing_normalization_enabled := False\<rparr>)
     = Inr ''afftdn=nr=0.4:nf=-25''
   \<and> build_filter_chain (default_config\<lparr>preprocessing_noise_reduction_enabled := False\<rparr>)
     = Inr ''loudnorm=I=-16:TP=-1.5:LRA=7''
   \<and> build_filter_chain
       (default_config\<lparr>preprocessing_noise_reduction_enabled := False,
          preprocessing_normalization_enabled := False,
          preprocessing_compression_enabled := True\<rparr>)
     = Inr ''acompressor=threshold=-20dB:ratio=4:attack=5:release=50''
   \<and> build_filter_chain
       (default_config\<lparr>preprocessing_noise_reduction_enabled := False,
          preprocessing_normalization_enabled := False,
          preprocessing_eq_enabled := True, preprocessing_eq_preset := ''music''\<rparr>)
     = Inr (''equalizer=f=60:width_type=h:width=100:g=1,''
            @ ''equalizer=f=300:width_type=h:width=200:g=0,''
            @ ''equalizer=f=1500:width_type=h:width=1000:g=1,''
            @ ''equalizer=f=6000:width_type=h:width=2000:g=2'')"
proof -
  let ?all = "default_config\<lparr>preprocessing_compression_enabled := True,
                preprocessing_eq_enabled := True\<rparr>"
  let ?nr = "default_config\<lparr>preprocessing_normalization_enabled := False\<rparr>"
  let ?norm = "default_config\<lparr>preprocessing_noise_reduction_enabled := False\<rparr>"
  let ?drc = "default_config\<lparr>preprocessing_noise_reduction_enabled := False,
                preprocessing_normalization_enabled := False,
                preprocessing_compression_enabled := True\<rparr>"
  let ?eq = "default_config\<lparr>preprocessing_noise_reduction_enabled := False,
               preprocessing_normalization_enabled := False,
               preprocessing_eq_enabled := True, preprocessing_eq_preset := ''music''\<rparr>"
  let ?chain = "''afftdn=nr=0.4:nf=-25,loudnorm=I=-16:TP=-1.5:LRA=7,''
            @ ''acompressor=threshold=-20dB:ratio=4:attack=5:release=50,''
            @ ''equalizer=f=100:width_type=h:width=200:g=-3,''
            @ ''equalizer=f=300:width_type=h:width=200:g=2,''
            @ ''equalizer=f=1500:width_type=h:width=1000:g=3,''
            @ ''equalizer=f=4000:width_type=h:width=1000:g=1,''
            @ ''equalizer=f=8000:width_type=h:width=2000:g=-2''"
  have a: "build_filter_chain ?all = Inr ?chain" by (simp add: eval_chain)
  obtain b where b: "build_filter_chain ?nr = Inr b" by (simp add: eval_chain)
  obtain n where n: "build_filter_chain ?norm = Inr n" by (simp add: eval_chain)
  obtain d where d: "build_filter_chain ?drc = Inr d" by (simp add: eval_chain)
  obtain e where e: "build_filter_chain ?eq = Inr e" by (simp add: eval_chain)
  have s: "split_comma ?chain
     = [''afftdn=nr=0.4:nf=-25'', ''loudnorm=I=-16:TP=-1.5:LRA=7'',
        ''acompressor=threshold=-20dB:ratio=4:attack=5:release=50'',
        ''equalizer=f=100:width_type=h:width=200:g=-3'',
        ''equalizer=f=300:width_type=h:width=200:g=2'',
        ''equalizer=f=1500:width_type=h:width=1000:g=3'',
        ''equalizer=f=4000:width_type=h:width=1000:g=1'',
        ''equalizer=f=8000:width_type=h:width=2000:g=-2'']"
    using filter_chain_stage_order [OF a]
    by (simp add: default_config_def noise_reduction_expr_def reduction_factor_def
        normalization_expr_def
        compressor_expr_def equalizer_exprs_def speech_bands_text str_int_def str_nat.simps)
  have "b = ''afftdn=nr=0.4:nf=-25''"
    using filter_chain_stage_order [OF b] by (simp add: eval_chain)
  moreover have "n = ''loudnorm=I=-16:TP=-1.5:LRA=7''"
    using filter_chain_stage_order [OF n] by (simp add: eval_chain)
  moreover have "d = ''acompressor=threshold=-20dB:ratio=4:attack=5:release=50''"
    using filter_chain_stage_order [OF d] by (simp add: eval_chain)
  moreover have "e = ''equalizer=f=60:width_type=h:width=100:g=1,''
            @ ''equalizer=f=300:width_type=h:width=200:g=0,''
            @ ''equalizer=f=1500:width_type=h:width=1000:g=1,''
            @ ''equalizer=f=6000:width_type=h:width=2000:g=2''"
    using filter_chain_stage_order [OF e] by (simp add: eval_chain)
  ultimately show ?thesis using a s b n d e by simp
qed

text \<open>
  Claim C7 (noise-reduction strength) as the specification words it does not hold. A
  configuration whose noise-reduction block is enabled and has no \<^verbatim>\<open>strength\<close> key
  (strength unset) does not compile to the chain of strength \<open>medium\<close>: the subscript of
  line 200 raises KeyError, which leaves \<^verbatim>\<open>_build_filter_chain\<close>. A strength value
  that is a YAML sequence or mapping makes the lookup of line 209 raise TypeError.
\<close>

theorem strength_lookup_can_raise:
  "build_filter_chain (default_config\<lparr>preprocessing_noise_reduction_strength := Missing\<rparr>)
     = Inl (KeyError ''strength'')
   \<and> build_filter_chain (default_config\<lparr>preprocessing_noise_reduction_strength := Unhashable\<rparr>)
     = Inl TypeError
   \<and> build_filter_chain (default_config\<lparr>preprocessing_noise_reduction_strength := Str ''medium''\<rparr>)
     = Inr ''afftdn=nr=0.4:nf=-25,loudnorm=I=-16:TP=-1.5:LRA=7''"
  by (simp add: eval_chain)

text \<open>
  Claim C7, amended. With noise reduction enabled: when the \<^verbatim>\<open>strength\<close> key is present
  and its value is hashable (a string, null, a boolean or a number), the first filter is
  the spectral denoiser with noise floor -25 dB and the reduction factor 0.2 for \<open>low\<close>,
  0.4 for \<open>medium\<close>, 0.6 for \<open>high\<close> and 0.4 for every other such value, and compiling
  returns a chain (no such value makes it fail); every such value that is neither \<open>low\<close>
  nor \<open>high\<close> compiles to the very chain that \<open>medium\<close> compiles to; an absent key makes
  compiling raise KeyError, and a value that is a sequence or a mapping makes it raise
  TypeError.
\<close>

theorem strength_mapping_of_present_key:
  assumes "preprocessing_noise_reduction_enabled c"
  shows "(preprocessing_noise_reduction_strength c \<noteq> Missing
            \<and> preprocessing_noise_reduction_strength c \<noteq> Unhashable \<longrightarrow>
          (\<exists>rest. build_filters c =
            Inr ((''afftdn=nr=''
                   @ (if preprocessing_noise_reduction_strength c = Str ''low'' then ''0.2''
                      else if preprocessing_noise_reduction_strength c = Str ''medium'' then ''0.4''
                      else if preprocessing_noise_reduction_strength c = Str ''high'' then ''0.6''
                      else ''0.4'')
                   @ '':nf=-25'') # rest))
          \<and> (\<exists>chain. build_filter_chain c = Inr chain))
       \<and> (\<forall>v. v \<noteq> Missing \<and> v \<noteq> Unhashable \<and> v \<noteq> Str ''low'' \<and> v \<noteq> Str ''high'' \<longrightarrow>
              build_filter_chain (c\<lparr>preprocessing_noise_reduction_strength := v\<rparr>)
            = build_filter_chain (c\<lparr>preprocessing_noise_reduction_strength := Str ''medium''\<rparr>))
       \<and> (preprocessing_noise_reduction_strength c = Missing \<longrightarrow>
            build_filter_chain c = Inl (KeyError ''strength''))
       \<and> (preprocessing_noise_reduction_strength c = Unhashable \<longrightarrow>
            build_filter_chain c = Inl TypeError)"
proof -
  have first: "\<exists>rest. build_filters c =
            Inr ((''afftdn=nr=''
                   @ (if preprocessing_noise_reduction_strength c = Str ''low'' then ''0.2''
                      else if preprocessing_noise_reduction_strength c = Str ''medium'' then ''0.4''
                      else if preprocessing_noise_reduction_strength c = Str ''high'' then ''0.6''
                      else ''0.4'')
                   @ '':nf=-25'') # rest)"
    if "preprocessing_noise_reduction_strength c \<noteq> Missing
          \<and> preprocessing_noise_reduction_strength c \<noteq> Unhashable"
    using assms that
    unfolding build_filters_stages noise_reduction_expr_def reduction_factor_def by simp
  have total: "\<exists>chain. build_filter_chain c = Inr chain"
    if "preprocessing_noise_reduction_strength c \<noteq> Missing
          \<and> preprocessing_noise_reduction_strength c \<noteq> Unhashable"
    using assms that by (simp add: build_filter_chain_def build_filters_stages)
  have same: "build_filter_chain (c\<lparr>preprocessing_noise_reduction_strength := v\<rparr>)
            = build_filter_chain (c\<lparr>preprocessing_noise_reduction_strength := Str ''medium''\<rparr>)"
    if "v \<noteq> Missing \<and> v \<noteq> Unhashable \<and> v \<noteq> Str ''low'' \<and> v \<noteq> Str ''high''" for v
    using that
    by (simp add: build_filter_chain_def build_filters_stages noise_reduction_expr_def
        normalization_expr_def compressor_expr_def equalizer_exprs_def reduction_factor_def)
  have absent: "build_filter_chain c = Inl (KeyError ''strength'')"
    if "preprocessing_noise_reduction_strength c = Missing"
    using assms that by (simp add: build_filter_chain_def build_filters_stages)
  have unhashable: "build_filter_chain c = Inl TypeError"
    if "preprocessing_noise_reduction_strength c = Unhashable"
    using assms that by (simp add: build_filter_chain_def build_filters_stages)
  from first total same absent unhashable show ?thesis by blast
qed

theorem strength_mapping_of_present_key_witness:
  "(\<exists>rest. build_filters (default_config\<lparr>preprocessing_noise_reduction_strength := Str ''low''\<rparr>)
       = Inr (''afftdn=nr=0.2:nf=-25'' # rest))
   \<and> (\<exists>rest. build_filters (default_config\<lparr>preprocessing_noise_reduction_strength := Str ''high''\<rparr>)
       = Inr (''afftdn=nr=0.6:nf=-25'' # rest))
   \<and> (\<exists>rest. build_filters (default_config\<lparr>preprocessing_noise_reduction_strength := Str ''medium''\<rparr>)
       = Inr (''afftdn=nr=0.4:nf=-25'' # rest))
   \<and> (\<exists>rest. build_filters (default_config\<lparr>preprocessing_noise_reduction_strength := Other_scalar\<rparr>)
       = Inr (''afftdn=nr=0.4:nf=-25'' # rest))
   \<and> build_filter_chain (default_config\<lparr>preprocessing_noise_reduction_strength := Str ''unknown''\<rparr>)
     = build_filter_chain (default_config\<lparr>preprocessing_noise_reduction_strength := Str ''medium''\<rparr>)
   \<and> build_filter_chain (default_config\<lparr>preprocessing_noise_reduction_strength := Null\<rparr>)
     = Inr ''afftdn=nr=0.4:nf=-25,loudnorm=I=-16:TP=-1.5:LRA=7''
   \<and> build_filter_chain (default_config\<lparr>preprocessing_noise_reduction_strength := Missing\<rparr>)
     = Inl (KeyError ''strength'')
   \<and> build_filter_chain (default_config\<lparr>preprocessing_noise_reduction_strength := Unhashable\<rparr>)
     = Inl TypeError"
proof -
  have en: "preprocessing_noise_reduction_enabled
              (default_config\<lparr>preprocessing_noise_reduction_strength := v\<rparr>)" for v
    by (simp add: default_config_def)
  note present = strength_mapping_of_present_key [OF en, THEN conjunct1, rule_format,
      THEN conjunct1]
  note same = strength_mapping_of_present_key [OF en, of "Str ''medium''",
      THEN conjunct2, THEN conjunct1, rule_format]
  note absent = strength_mapping_of_present_key [OF en, of Missing,
      THEN conjunct2, THEN conjunct2, THEN conjunct1, rule_format]
  note unhashable = strength_mapping_of_present_key [OF en, of Unhashable,
      THEN conjunct2, THEN conjunct2, THEN conjunct2, rule_format]
  have l: "\<exists>rest. build_filters (default_config\<lparr>preprocessing_noise_reduction_strength := Str ''low''\<rparr>)
       = Inr (''afftdn=nr=0.2:nf=-25'' # rest)"
    using present [of "Str ''low''"] by simp
  have h: "\<exists>rest. build_filters (default_config\<lparr>preprocessing_noise_reduction_strength := Str ''high''\<rparr>)
       = Inr (''afftdn=nr=0.6:nf=-25'' # rest)"
    using present [of "Str ''high''"] by simp
  have m: "\<exists>rest. build_filters (default_config\<lparr>preprocessing_noise_reduction_strength := Str ''medium''\<rparr>)
       = Inr (''afftdn=nr=0.4:nf=-25'' # rest)"
    using present [of "Str ''medium''"] by simp
  have o: "\<exists>rest. build_filters (default_config\<lparr>preprocessing_noise_reduction_strength := Other_scalar\<rparr>)
       = Inr (''afftdn=nr=0.4:nf=-25'' # rest)"
    using present [of Other_scalar] by simp
  have u: "build_filter_chain (default_config\<lparr>preprocessing_noise_reduction_strength := Str ''unknown''\<rparr>)
     = build_filter_chain (default_config\<lparr>preprocessing_noise_reduction_strength := Str ''medium''\<rparr>)"
    using same [of "Str ''unknown''"] by simp
  have "build_filter_chain (default_config\<lparr>preprocessing_noise_reduction_strength := Null\<rparr>)
     = build_filter_chain (default_config\<lparr>preprocessing_noise_reduction_strength := Str ''medium''\<rparr>)"
    using same [of Null] by simp
  also have "\<dots> = Inr ''afftdn=nr=0.4:nf=-25,loudnorm=I=-16:TP=-1.5:LRA=7''"
    by (simp add: eval_chain)
  finally have n: "build_filter_chain (default_config\<lparr>preprocessing_noise_reduction_strength := Null\<rparr>)
     = Inr ''afftdn=nr=0.4:nf=-25,loudnorm=I=-16:TP=-1.5:LRA=7''" .
  have a: "build_filter_chain (default_config\<lparr>preprocessing_noise_reduction_strength := Missing\<rparr>)
     = Inl (KeyError ''strength'')"
    using absent by simp
  have t: "build_filter_chain (default_config\<lparr>preprocessing_noise_reduction_strength := Unhashable\<rparr>)
     = Inl TypeError"
    using unhashable by simp
  from l h m o u n a t show ?thesis by blast
qed

text \<open>
  Claim C9 (equalisation presets). With equalisation enabled, the filters are those of
  the same configuration with equalisation disabled, followed by the bands of the
  preset: five for \<open>speech\<close> (100 Hz -3 dB, 300 Hz +2 dB, 1500 Hz +3 dB, 4000 Hz +1 dB,
  8000 Hz -2 dB), four for \<open>music\<close> (60 Hz +1 dB, 300 Hz 0 dB, 1500 Hz +1 dB,
  6000 Hz +2 dB), none for any other preset name, which adds nothing and raises
  nothing.
\<close>

theorem equalizer_presets:
  assumes "preprocessing_eq_enabled c"
    and "build_filters (c\<lparr>preprocessing_eq_enabled := False\<rparr>) = Inr before"
  shows "(preprocessing_eq_preset c = ''speech'' \<longrightarrow>
            build_filters c =
              Inr (before @ [eq_band 100 200 (- 3), eq_band 300 200 2, eq_band 1500 1000 3,
                             eq_band 4000 1000 1, eq_band 8000 2000 (- 2)]))
       \<and> (preprocessing_eq_preset c = ''music'' \<longrightarrow>
            build_filters c =
              Inr (before @ [eq_band 60 100 1, eq_band 300 200 0, eq_band 1500 1000 1,
                             eq_band 6000 2000 2]))
       \<and> (preprocessing_eq_preset c \<noteq> ''speech'' \<and> preprocessing_eq_preset c \<noteq> ''music'' \<longrightarrow>
            build_filters c = Inr before)"
  using assms
  by (auto simp add: build_filters_stages noise_reduction_expr_def normalization_expr_def
      compressor_expr_def equalizer_exprs_def speech_bands_def music_bands_def
      split: if_splits)

theorem equalizer_presets_witness:
  "build_filters (default_config\<lparr>preprocessing_eq_enabled := True\<rparr>)
     = Inr [''afftdn=nr=0.4:nf=-25'', ''loudnorm=I=-16:TP=-1.5:LRA=7'',
            ''equalizer=f=100:width_type=h:width=200:g=-3'',
            ''equalizer=f=300:width_type=h:width=200:g=2'',
            ''equalizer=f=1500:width_type=h:width=1000:g=3'',
            ''equalizer=f=4000:width_type=h:width=1000:g=1'',
            ''equalizer=f=8000:width_type=h:width=2000:g=-2'']
   \<and> build_filters (default_config\<lparr>preprocessing_eq_enabled := True,
                        preprocessing_eq_preset := ''music''\<rparr>)
     = Inr [''afftdn=nr=0.4:nf=-25'', ''loudnorm=I=-16:TP=-1.5:LRA=7'',
            ''equalizer=f=60:width_type=h:width=100:g=1'',
            ''equalizer=f=300:width_type=h:width=200:g=0'',
            ''equalizer=f=1500:width_type=h:width=1000:g=1'',
            ''equalizer=f=6000:width_type=h:width=2000:g=2'']
   \<and> build_filters (default_config\<lparr>preprocessing_eq_enabled := True,
                        preprocessing_eq_preset := ''custom''\<rparr>)
     = Inr [''afftdn=nr=0.4:nf=-25'', ''loudnorm=I=-16:TP=-1.5:LRA=7'']"
proof -
  let ?before = "[''afftdn=nr=0.4:nf=-25'', ''loudnorm=I=-16:TP=-1.5:LRA=7'']"
  have en: "preprocessing_eq_enabled
              (default_config\<lparr>preprocessing_eq_enabled := True, preprocessing_eq_preset := p\<rparr>)" for p
    by simp
  have off: "build_filters
               ((default_config\<lparr>preprocessing_eq_enabled := True, preprocessing_eq_preset := p\<rparr>)
                  \<lparr>preprocessing_eq_enabled := False\<rparr>) = Inr ?before" for p
    by (simp add: eval_chain)
  have en1: "preprocessing_eq_enabled (default_config\<lparr>preprocessing_eq_enabled := True\<rparr>)"
    by simp
  have off1: "build_filters ((default_config\<lparr>preprocessing_eq_enabled := True\<rparr>)
                \<lparr>preprocessing_eq_enabled := False\<rparr>) = Inr ?before"
    by (simp add: eval_chain)
  have s: "build_filters (default_config\<lparr>preprocessing_eq_enabled := True\<rparr>)
     = Inr [''afftdn=nr=0.4:nf=-25'', ''loudnorm=I=-16:TP=-1.5:LRA=7'',
            ''equalizer=f=100:width_type=h:width=200:g=-3'',
            ''equalizer=f=300:width_type=h:width=200:g=2'',
            ''equalizer=f=1500:width_type=h:width=1000:g=3'',
            ''equalizer=f=4000:width_type=h:width=1000:g=1'',
            ''equalizer=f=8000:width_type=h:width=2000:g=-2'']"
    using equalizer_presets [OF en1 off1, THEN conjunct1]
    by (simp add: default_config_def eq_band_def str_int_def str_nat.simps)
  have "build_filters (default_config\<lparr>preprocessing_eq_enabled := True,
                         preprocessing_eq_preset := ''music''\<rparr>)
     = Inr (?before @ [eq_band 60 100 1, eq_band 300 200 0, eq_band 1500 1000 1,
                       eq_band 6000 2000 2])"
    using equalizer_presets [OF en off, of "''music''", THEN conjunct2, THEN conjunct1] by simp
  then have m: "build_filters (default_config\<lparr>preprocessing_eq_enabled := True,
                        preprocessing_eq_preset := ''music''\<rparr>)
     = Inr [''afftdn=nr=0.4:nf=-25'', ''loudnorm=I=-16:TP=-1.5:LRA=7'',
            ''equalizer=f=60:width_type=h:width=100:g=1'',
            ''equalizer=f=300:width_type=h:width=200:g=0'',
            ''equalizer=f=1500:width_type=h:width=1000:g=1'',
            ''equalizer=f=6000:width_type=h:width=2000:g=2'']"
    by (simp add: eq_band_def str_int_def str_nat.simps)
  have o: "build_filters (default_config\<lparr>preprocessing_eq_enabled := True,
                         preprocessing_eq_preset := ''custom''\<rparr>) = Inr ?before"
    using equalizer_presets [OF en off, of "''custom''", THEN conjunct2, THEN conjunct2] by simp
  from s m o show ?thesis by simp
qed

section \<open>Processing one file: the skip test, the output path, the command\<close>

text \<open>
  Claim C2 (where the skip test looks). A call is a skip exactly when something exists
  at \<^verbatim>\<open><output_dir>/<stem><suffix>.<base output format>\<close>, the path computed on lines
  129-130 before the compression format is considered; the call then returns that path
  and leaves the file system alone. In particular, with compression enabled and a
  compression format other than the base format, a file that already exists at the
  compression-format path (the path the engine writes to) does not make the call a skip
  when nothing exists at the base-format path.
\<close>

theorem skip_test_reads_base_format_path:
  "skipped w (process_single_file c eng f w) = path_exists (fs w) (base_output_path c f)
   \<and> (path_exists (fs w) (base_output_path c f) \<longrightarrow>
        fst (process_single_file c eng f w) = Inr (Some (base_output_path c f))
        \<and> fs (snd (process_single_file c eng f w)) = fs w)
   \<and> (compression_enabled c \<and> compression_format c \<noteq> output_format c
        \<and> path_exists (fs w) (target_output_path c f)
        \<and> \<not> path_exists (fs w) (base_output_path c f) \<longrightarrow>
        \<not> skipped w (process_single_file c eng f w))"
proof -
  have iff: "skipped w (process_single_file c eng f w) = path_exists (fs w) (base_output_path c f)"
  proof (cases "path_exists (fs w) (base_output_path c f)")
    case True
    then show ?thesis
      by (simp add: process_single_file_skip skipped_def)
  next
    case False
    show ?thesis
    proof (cases "build_filter_chain c")
      case (Inl e)
      with False show ?thesis
        by (simp add: process_single_file_chain_error skipped_def)
    next
      case (Inr chain)
      with False show ?thesis
        by (cases "eng (engine_command c f chain)")
           (simp_all add: process_single_file_run skipped_def Let_def)
    qed
  qed
  have hit: "fst (process_single_file c eng f w) = Inr (Some (base_output_path c f))
        \<and> fs (snd (process_single_file c eng f w)) = fs w"
    if "path_exists (fs w) (base_output_path c f)"
    using that by (simp add: process_single_file_skip)
  from iff hit show ?thesis by simp
qed

theorem skip_test_reads_base_format_path_witness:
  "\<not> skipped \<lparr>fs = [(''processed_audio/clip_processed.m4a'', File)], invocations = [], logs = []\<rparr>
       (process_single_file default_config (\<lambda>cmd. Exit 0) ''clip.wav''
          \<lparr>fs = [(''processed_audio/clip_processed.m4a'', File)], invocations = [], logs = []\<rparr>)
   \<and> skipped \<lparr>fs = [(''processed_audio/clip_processed.wav'', File)], invocations = [], logs = []\<rparr>
       (process_single_file default_config (\<lambda>cmd. Exit 0) ''clip.wav''
          \<lparr>fs = [(''processed_audio/clip_processed.wav'', File)], invocations = [], logs = []\<rparr>)
   \<and> fst (process_single_file default_config (\<lambda>cmd. Exit 0) ''clip.wav''
          \<lparr>fs = [(''processed_audio/clip_processed.wav'', File)], invocations = [], logs = []\<rparr>)
     = Inr (Some ''processed_audio/clip_processed.wav'')"
proof -
  let ?m4a = "\<lparr>fs = [(''processed_audio/clip_processed.m4a'', File)], invocations = [], logs = []\<rparr>"
  let ?wav = "\<lparr>fs = [(''processed_audio/clip_processed.wav'', File)], invocations = [], logs = []\<rparr>"
  have base: "base_output_path default_config ''clip.wav'' = ''processed_audio/clip_processed.wav''"
    by (simp add: base_output_path_def default_config_def path_join_def path_stem_def
        path_name_def Let_def)
  have target: "target_output_path default_config ''clip.wav'' = ''processed_audio/clip_processed.m4a''"
    by (simp add: target_output_path_def target_filename_def target_format_def
        default_config_def path_join_def path_stem_def path_name_def Let_def)
  have a: "\<not> skipped ?m4a (process_single_file default_config (\<lambda>cmd. Exit 0) ''clip.wav'' ?m4a)"
    using skip_test_reads_base_format_path
            [of ?m4a default_config "\<lambda>cmd. Exit 0" "''clip.wav''", THEN conjunct2, THEN conjunct2]
    by (simp add: base target path_exists_def) (simp add: default_config_def)
  have b: "skipped ?wav (process_single_file default_config (\<lambda>cmd. Exit 0) ''clip.wav'' ?wav)"
    using skip_test_reads_base_format_path
            [of ?wav default_config "\<lambda>cmd. Exit 0" "''clip.wav''", THEN conjunct1]
    by (simp add: base path_exists_def)
  have c: "fst (process_single_file default_config (\<lambda>cmd. Exit 0) ''clip.wav'' ?wav)
     = Inr (Some ''processed_audio/clip_processed.wav'')"
    using skip_test_reads_base_format_path
            [of ?wav default_config "\<lambda>cmd. Exit 0" "''clip.wav''", THEN conjunct2, THEN conjunct1]
    by (simp add: base path_exists_def)
  from a b c show ?thesis by simp
qed

text \<open>
  Claim C3 (output-path derivation). Whenever a call is not a skip and the chain
  compiles, the engine is started once, and the path it is told to write (the last
  argument of the command) is the output directory joined with
  stem + suffix + "." + format, the format being the compression format if compression
  is enabled and differs from the base format, and the base format otherwise; when the
  engine exits with status 0 the call returns that path, and the file exists. For
  \<^verbatim>\<open>clip.wav\<close> under the default configuration the file is
  \<^verbatim>\<open>clip_processed.m4a\<close>.
\<close>

theorem output_path_derivation:
  assumes "\<not> path_exists (fs w) (base_output_path c f)" and "build_filter_chain c = Inr chain"
  shows "\<exists>cmd out.
           out = path_join (output_directory c)
                   (path_stem f @ output_suffix c @ ''.''
                      @ (if compression_enabled c \<and> compression_format c \<noteq> output_format c
                         then compression_format c else output_format c))
         \<and> invocations (snd (process_single_file c eng f w)) = invocations w @ [cmd]
         \<and> last cmd = out
         \<and> (eng cmd = Exit 0 \<longrightarrow>
               fst (process_single_file c eng f w) = Inr (Some out)
             \<and> path_exists (fs (snd (process_single_file c eng f w))) out)"
proof -
  have out: "target_output_path c f =
      path_join (output_directory c)
        (path_stem f @ output_suffix c @ ''.''
           @ (if compression_enabled c \<and> compression_format c \<noteq> output_format c
              then compression_format c else output_format c))"
    by (simp add: target_output_path_def target_filename_def target_format_def)
  show ?thesis
    using invocations_process_single_file_run [OF assms, of eng]
      success_process_single_file_run [OF assms, of eng]
    unfolding out [symmetric]
    by (intro exI [of _ "engine_command c f chain"] exI [of _ "target_output_path c f"]) simp
qed

theorem output_path_derivation_witness:
  "\<exists>cmd. invocations (snd (process_single_file default_config (\<lambda>cmd. Exit 0) ''in/clip.wav''
                            \<lparr>fs = [(''in/clip.wav'', File)], invocations = [], logs = []\<rparr>)) = [cmd]
        \<and> last cmd = ''processed_audio/clip_processed.m4a''
        \<and> fst (process_single_file default_config (\<lambda>cmd. Exit 0) ''in/clip.wav''
                  \<lparr>fs = [(''in/clip.wav'', File)], invocations = [], logs = []\<rparr>)
            = Inr (Some ''processed_audio/clip_processed.m4a'')"
proof -
  let ?w = "\<lparr>fs = [(''in/clip.wav'', File)], invocations = [], logs = []\<rparr>"
  have fresh: "\<not> path_exists (fs ?w) (base_output_path default_config ''in/clip.wav'')"
    by (simp add: eval_paths path_exists_def)
  obtain chain where chain: "build_filter_chain default_config = Inr chain"
    by (simp add: eval_chain)
  from output_path_derivation [OF fresh chain, of "\<lambda>cmd. Exit 0"]
  show ?thesis
    by (simp add: eval_paths path_join_def default_config_def) blast
qed

text \<open>
  Claim C8 (encoding options). The command of a call that is not a skip is
  \<^verbatim>\<open>ffmpeg -i <input> [-filter_complex <chain>] <options> -y <output>\<close>, where the
  options are the configured codec and bitrate when compression is enabled, the 16-bit
  PCM codec when compression is disabled and the base format is \<open>wav\<close>, and nothing when
  compression is disabled and the base format is anything else.
\<close>

theorem encoding_option_selection:
  assumes "\<not> path_exists (fs w) (base_output_path c f)" and "build_filter_chain c = Inr chain"
  shows "\<exists>opts.
           invocations (snd (process_single_file c eng f w))
             = invocations w
               @ [[''ffmpeg'', ''-i'', f]
                    @ (if chain \<noteq> [] then [''-filter_complex'', chain] else [])
                    @ opts @ [''-y'', target_output_path c f]]
         \<and> (compression_enabled c \<longrightarrow>
               opts = [''-c:a'', compression_codec c, ''-b:a'', compression_bitrate c])
         \<and> (\<not> compression_enabled c \<and> output_format c = ''wav'' \<longrightarrow>
               opts = [''-c:a'', ''pcm_s16le''])
         \<and> (\<not> compression_enabled c \<and> output_format c \<noteq> ''wav'' \<longrightarrow> opts = [])"
  using invocations_process_single_file_run [OF assms, of eng]
  by (intro exI [of _ "encoding_options c"])
     (simp add: engine_command_def encoding_options_def)

theorem encoding_option_selection_witness:
  "invocations (snd (process_single_file default_config (\<lambda>cmd. Exit 0) ''in/clip.wav''
                       \<lparr>fs = [(''in/clip.wav'', File)], invocations = [], logs = []\<rparr>))
     = [[''ffmpeg'', ''-i'', ''in/clip.wav'', ''-filter_complex'',
         ''afftdn=nr=0.4:nf=-25,loudnorm=I=-16:TP=-1.5:LRA=7'',
         ''-c:a'', ''aac'', ''-b:a'', ''128k'', ''-y'', ''processed_audio/clip_processed.m4a'']]
   \<and> invocations (snd (process_single_file (default_config\<lparr>compression_enabled := False\<rparr>)
                       (\<lambda>cmd. Exit 0) ''in/clip.wav''
                       \<lparr>fs = [(''in/clip.wav'', File)], invocations = [], logs = []\<rparr>))
     = [[''ffmpeg'', ''-i'', ''in/clip.wav'', ''-filter_complex'',
         ''afftdn=nr=0.4:nf=-25,loudnorm=I=-16:TP=-1.5:LRA=7'',
         ''-c:a'', ''pcm_s16le'', ''-y'', ''processed_audio/clip_processed.wav'']]
   \<and> invocations (snd (process_single_file
                       (default_config\<lparr>compression_enabled := False, output_format := ''mp3''\<rparr>)
                       (\<lambda>cmd. Exit 0) ''in/clip.wav''
                       \<lparr>fs = [(''in/clip.wav'', File)], invocations = [], logs = []\<rparr>))
     = [[''ffmpeg'', ''-i'', ''in/clip.wav'', ''-filter_complex'',
         ''afftdn=nr=0.4:nf=-25,loudnorm=I=-16:TP=-1.5:LRA=7'',
         ''-y'', ''processed_audio/clip_processed.mp3'']]"
proof -
  let ?w = "\<lparr>fs = [(''in/clip.wav'', File)], invocations = [], logs = []\<rparr>"
  let ?chain = "''afftdn=nr=0.4:nf=-25,loudnorm=I=-16:TP=-1.5:LRA=7''"
  let ?pcm = "default_config\<lparr>compression_enabled := False\<rparr>"
  let ?mp3 = "default_config\<lparr>compression_enabled := False, output_format := ''mp3''\<rparr>"
  have stem: "path_stem ''in/clip.wav'' = ''clip''"
    by (rule eval_paths)
  have fresh: "\<not> path_exists (fs ?w) (base_output_path default_config ''in/clip.wav'')"
    "\<not> path_exists (fs ?w) (base_output_path ?pcm ''in/clip.wav'')"
    "\<not> path_exists (fs ?w) (base_output_path ?mp3 ''in/clip.wav'')"
    by (simp_all add: base_output_path_def stem path_join_def default_config_def path_exists_def)
  have chain: "build_filter_chain default_config = Inr ?chain"
    "build_filter_chain ?pcm = Inr ?chain" "build_filter_chain ?mp3 = Inr ?chain"
    by (simp_all add: eval_chain)
  have a: "invocations (snd (process_single_file default_config (\<lambda>cmd. Exit 0) ''in/clip.wav'' ?w))
     = [[''ffmpeg'', ''-i'', ''in/clip.wav'', ''-filter_complex'', ?chain,
         ''-c:a'', ''aac'', ''-b:a'', ''128k'', ''-y'', ''processed_audio/clip_processed.m4a'']]"
    using encoding_option_selection [OF fresh(1) chain(1), of "\<lambda>cmd. Exit 0"]
    by (auto simp add: target_output_path_def target_filename_def target_format_def stem
        path_join_def default_config_def)
  have b: "invocations (snd (process_single_file ?pcm (\<lambda>cmd. Exit 0) ''in/clip.wav'' ?w))
     = [[''ffmpeg'', ''-i'', ''in/clip.wav'', ''-filter_complex'', ?chain,
         ''-c:a'', ''pcm_s16le'', ''-y'', ''processed_audio/clip_processed.wav'']]"
    using encoding_option_selection [OF fresh(2) chain(2), of "\<lambda>cmd. Exit 0"]
    by (auto simp add: target_output_path_def target_filename_def target_format_def stem
        path_join_def default_config_def)
  have c: "invocations (snd (process_single_file ?mp3 (\<lambda>cmd. Exit 0) ''in/clip.wav'' ?w))
     = [[''ffmpeg'', ''-i'', ''in/clip.wav'', ''-filter_complex'', ?chain,
         ''-y'', ''processed_audio/clip_processed.mp3'']]"
    using encoding_option_selection [OF fresh(3) chain(3), of "\<lambda>cmd. Exit 0"]
    by (auto simp add: target_output_path_def target_filename_def target_format_def stem
        path_join_def default_config_def)
  from a b c show ?thesis by simp
qed

text \<open>
  Claim C10 (empty chain). When the four stages are all disabled the compiled chain is
  the empty string, and the command of a call that is not a skip goes from the input
  straight to the encoding options: it has no \<^verbatim>\<open>-filter_complex\<close> argument.
\<close>

theorem empty_chain_no_filter_argument:
  assumes "\<not> preprocessing_noise_reduction_enabled c"
    and "\<not> preprocessing_normalization_enabled c"
    and "\<not> preprocessing_compression_enabled c"
    and "\<not> preprocessing_eq_enabled c"
  shows "build_filter_chain c = Inr ''''
       \<and> (\<not> path_exists (fs w) (base_output_path c f) \<longrightarrow>
            invocations (snd (process_single_file c eng f w))
              = invocations w
                @ [[''ffmpeg'', ''-i'', f] @ encoding_options c @ [''-y'', target_output_path c f]])"
proof -
  have empty: "build_filter_chain c = Inr ''''"
    using assms by (simp add: build_filter_chain_def build_filters_stages)
  have "invocations (snd (process_single_file c eng f w))
          = invocations w
            @ [[''ffmpeg'', ''-i'', f] @ encoding_options c @ [''-y'', target_output_path c f]]"
    if "\<not> path_exists (fs w) (base_output_path c f)"
    using invocations_process_single_file_run [OF that empty, of eng]
    by (simp add: engine_command_def)
  with empty show ?thesis by simp
qed

theorem empty_chain_no_filter_argument_witness:
  "build_filter_chain
     (default_config\<lparr>preprocessing_noise_reduction_enabled := False,
        preprocessing_normalization_enabled := False\<rparr>) = Inr ''''
   \<and> invocations (snd (process_single_file
                       (default_config\<lparr>preprocessing_noise_reduction_enabled := False,
                          preprocessing_normalization_enabled := False\<rparr>)
                       (\<lambda>cmd. Exit 0) ''in/clip.wav''
                       \<lparr>fs = [(''in/clip.wav'', File)], invocations = [], logs = []\<rparr>))
     = [[''ffmpeg'', ''-i'', ''in/clip.wav'', ''-c:a'', ''aac'', ''-b:a'', ''128k'', ''-y'',
         ''processed_audio/clip_processed.m4a'']]"
proof -
  let ?w = "\<lparr>fs = [(''in/clip.wav'', File)], invocations = [], logs = []\<rparr>"
  let ?c = "default_config\<lparr>preprocessing_noise_reduction_enabled := False,
              preprocessing_normalization_enabled := False\<rparr>"
  have off: "\<not> preprocessing_noise_reduction_enabled ?c" "\<not> preprocessing_normalization_enabled ?c"
    "\<not> preprocessing_compression_enabled ?c" "\<not> preprocessing_eq_enabled ?c"
    by (simp_all add: default_config_def)
  have stem: "path_stem ''in/clip.wav'' = ''clip''"
    by (rule eval_paths)
  have fresh: "\<not> path_exists (fs ?w) (base_output_path ?c ''in/clip.wav'')"
    by (simp add: base_output_path_def stem path_join_def default_config_def path_exists_def)
  note t = empty_chain_no_filter_argument [OF off, of ?w "''in/clip.wav''" "\<lambda>cmd. Exit 0"]
  have a: "build_filter_chain ?c = Inr ''''"
    using t by (rule conjunct1)
  have b: "invocations (snd (process_single_file ?c (\<lambda>cmd. Exit 0) ''in/clip.wav'' ?w))
     = [[''ffmpeg'', ''-i'', ''in/clip.wav'', ''-c:a'', ''aac'', ''-b:a'', ''128k'', ''-y'',
         ''processed_audio/clip_processed.m4a'']]"
    using t [THEN conjunct2, rule_format, OF fresh]
    by (simp add: encoding_options_def target_output_path_def target_filename_def
        target_format_def stem path_join_def default_config_def)
  from a b show ?thesis by simp
qed

section \<open>The batch driver: which files become tasks\<close>

text \<open>
  Every call of \<^verbatim>\<open>_process_single_file\<close> logs the file it begins with, once, so the
  files a batch has started can be read off the log.
\<close>

lemma tasks_started_simps [simp]:
  "tasks_started [] = []"
  "tasks_started (e # l) = started e @ tasks_started l"
  "tasks_started (l @ l') = tasks_started l @ tasks_started l'"
  by (simp_all add: tasks_started_def)









section \<open>Where the code leaves the specification\<close>

text \<open>
  Re-running is a no-op when the engine wrote to the path the skip test reads, that is
  when the format written is the base output format: a call that returned a path is
  followed by a skip.
\<close>

lemma path_exists_create_file:
  "path_exists (create_file p fsys) p"
  by (simp add: create_file_def path_exists_def)

lemma rerun_is_skip_when_formats_agree:
  assumes "target_format c = output_format c"
    and "fst (process_single_file c eng f w) = Inr (Some p)"
  shows "skipped (snd (process_single_file c eng f w))
           (process_single_file c eng f (snd (process_single_file c eng f w)))"
proof -
  let ?w' = "snd (process_single_file c eng f w)"
  have same: "target_output_path c f = base_output_path c f"
    using assms(1) by (simp add: target_output_path_def target_filename_def base_output_path_def)
  have "path_exists (fs ?w') (base_output_path c f)"
  proof (cases "path_exists (fs w) (base_output_path c f)")
    case True
    then show ?thesis
      by (simp add: process_single_file_skip)
  next
    case False
    show ?thesis
    proof (cases "build_filter_chain c")
      case (Inl e)
      with False assms(2) show ?thesis
        by (simp add: process_single_file_chain_error)
    next
      case (Inr chain)
      show ?thesis
      proof (cases "eng (engine_command c f chain)")
        case Launch_failure
        with False Inr assms(2) show ?thesis
          by (simp add: process_single_file_run Let_def)
      next
        case (Exit rc)
        with False Inr assms(2) show ?thesis
          by (cases "rc = 0")
             (simp_all add: process_single_file_run Let_def same path_exists_create_file)
      qed
    qed
  qed
  then show ?thesis
    by (simp add: process_single_file_skip skipped_def)
qed

text \<open>
  What a call returns when the engine is started and fails, and the command and the
  chain of the default configuration.
\<close>

lemma process_single_file_nonzero_exit:
  assumes "\<not> path_exists (fs w) (base_output_path c f)" and "build_filter_chain c = Inr chain"
    and "eng (engine_command c f chain) = Exit rc" and "rc \<noteq> 0"
  shows "fst (process_single_file c eng f w) = Inr None
       \<and> last (logs (snd (process_single_file c eng f w))) = Error_processing f (CalledProcessError rc)"
  using assms by (simp add: process_single_file_run Let_def)

lemma process_single_file_launch_failure:
  assumes "\<not> path_exists (fs w) (base_output_path c f)" and "build_filter_chain c = Inr chain"
    and "eng (engine_command c f chain) = Launch_failure"
  shows "fst (process_single_file c eng f w) = Inl OSError"
  using assms by (simp add: process_single_file_run Let_def)

lemma default_command:
  "engine_command default_config ''in/clip.wav'' ''afftdn=nr=0.4:nf=-25,loudnorm=I=-16:TP=-1.5:LRA=7''
     = [''ffmpeg'', ''-i'', ''in/clip.wav'', ''-filter_complex'',
        ''afftdn=nr=0.4:nf=-25,loudnorm=I=-16:TP=-1.5:LRA=7'',
        ''-c:a'', ''aac'', ''-b:a'', ''128k'', ''-y'', ''processed_audio/clip_processed.m4a'']"
  by (simp add: engine_command_def encoding_options_def eval_paths) (simp add: default_config_def)

lemma default_chain:
  "build_filter_chain default_config = Inr ''afftdn=nr=0.4:nf=-25,loudnorm=I=-16:TP=-1.5:LRA=7''"
  by (simp add: eval_chain)

text \<open>
  Claim C1 (idempotent skip) fails on the code under the default configuration
  (base format \<open>wav\<close>, compression to \<open>m4a\<close>). The first run of the batch on a directory
  holding \<^verbatim>\<open>clip.wav\<close> writes \<^verbatim>\<open>processed_audio/clip_processed.m4a\<close>; run again on
  the resulting file system, with that file in place, the batch starts the engine for
  \<^verbatim>\<open>clip.wav\<close> once more, because the skip test of line 135 reads
  \<^verbatim>\<open>processed_audio/clip_processed.wav\<close>.
\<close>

theorem second_run_starts_engine_again:
  "process_audio_files default_config (\<lambda>cmd. Exit 0) ''in''
     \<lparr>fs = [(''in'', Dir), (''in/clip.wav'', File), (''processed_audio'', Dir)],
        invocations = [], logs = []\<rparr>
   = (Inr (),
      \<lparr>fs = [(''in'', Dir), (''in/clip.wav'', File), (''processed_audio'', Dir),
              (''processed_audio/clip_processed.m4a'', File)],
         invocations =
           [[''ffmpeg'', ''-i'', ''in/clip.wav'', ''-filter_complex'',
             ''afftdn=nr=0.4:nf=-25,loudnorm=I=-16:TP=-1.5:LRA=7'',
             ''-c:a'', ''aac'', ''-b:a'', ''128k'', ''-y'', ''processed_audio/clip_processed.m4a'']],
         logs =
           [Info_Found_audio_files 1, Info_Processing_file ''in/clip.wav'',
            Info_Running_FFmpeg
              [''ffmpeg'', ''-i'', ''in/clip.wav'', ''-filter_complex'',
               ''afftdn=nr=0.4:nf=-25,loudnorm=I=-16:TP=-1.5:LRA=7'',
               ''-c:a'', ''aac'', ''-b:a'', ''128k'', ''-y'', ''processed_audio/clip_processed.m4a''],
            Info_Successfully_processed ''processed_audio/clip_processed.m4a'']\<rparr>)
   \<and> invocations (snd (process_audio_files default_config (\<lambda>cmd. Exit 0) ''in''
        \<lparr>fs = [(''in'', Dir), (''in/clip.wav'', File), (''processed_audio'', Dir),
                (''processed_audio/clip_processed.m4a'', File)],
           invocations = [], logs = []\<rparr>))
     = [[''ffmpeg'', ''-i'', ''in/clip.wav'', ''-filter_complex'',
         ''afftdn=nr=0.4:nf=-25,loudnorm=I=-16:TP=-1.5:LRA=7'',
         ''-c:a'', ''aac'', ''-b:a'', ''128k'', ''-y'', ''processed_audio/clip_processed.m4a'']]"
proof -
  let ?cmd = "[''ffmpeg'', ''-i'', ''in/clip.wav'', ''-filter_complex'',
         ''afftdn=nr=0.4:nf=-25,loudnorm=I=-16:TP=-1.5:LRA=7'',
         ''-c:a'', ''aac'', ''-b:a'', ''128k'', ''-y'', ''processed_audio/clip_processed.m4a'']"
  have files0: "audio_files [(''in'', Dir), (''in/clip.wav'', File), (''processed_audio'', Dir)] ''in''
      = [''in/clip.wav'']"
    by (simp add: audio_files_def audio_extensions_def glob_star_def entry_name_def ends_with_def)
  have files1: "audio_files [(''in'', Dir), (''in/clip.wav'', File), (''processed_audio'', Dir),
                (''processed_audio/clip_processed.m4a'', File)] ''in''
      = [''in/clip.wav'']"
    by (simp add: audio_files_def audio_extensions_def glob_star_def entry_name_def ends_with_def)
  have run: "process_single_file default_config (\<lambda>cmd. Exit 0) ''in/clip.wav'' w
      = (Inr (Some ''processed_audio/clip_processed.m4a''),
         w\<lparr>fs := create_file ''processed_audio/clip_processed.m4a'' (fs w),
             invocations := invocations w @ [?cmd],
             logs := logs w @ [Info_Processing_file ''in/clip.wav'', Info_Running_FFmpeg ?cmd,
                       Info_Successfully_processed ''processed_audio/clip_processed.m4a'']\<rparr>)"
    if "\<not> path_exists (fs w) ''processed_audio/clip_processed.wav''" for w
  proof -
    have fresh: "\<not> path_exists (fs w) (base_output_path default_config ''in/clip.wav'')"
      using that by (simp add: eval_paths)
    show ?thesis
      unfolding process_single_file_run [OF fresh default_chain] default_command
      by (simp add: Let_def eval_paths emit_def)
  qed
  have first: "process_audio_files default_config (\<lambda>cmd. Exit 0) ''in''
     \<lparr>fs = [(''in'', Dir), (''in/clip.wav'', File), (''processed_audio'', Dir)],
        invocations = [], logs = []\<rparr>
   = (Inr (),
      \<lparr>fs = [(''in'', Dir), (''in/clip.wav'', File), (''processed_audio'', Dir),
              (''processed_audio/clip_processed.m4a'', File)],
         invocations = [?cmd],
         logs =
           [Info_Found_audio_files 1, Info_Processing_file ''in/clip.wav'',
            Info_Running_FFmpeg ?cmd,
            Info_Successfully_processed ''processed_audio/clip_processed.m4a'']\<rparr>)"
    by (simp add: process_audio_files_def is_file_def is_dir_def files0 run path_exists_def
        create_file_def emit_def)
  have second: "invocations (snd (process_audio_files default_config (\<lambda>cmd. Exit 0) ''in''
        \<lparr>fs = [(''in'', Dir), (''in/clip.wav'', File), (''processed_audio'', Dir),
                (''processed_audio/clip_processed.m4a'', File)],
           invocations = [], logs = []\<rparr>)) = [?cmd]"
    by (simp add: process_audio_files_def is_file_def is_dir_def files1 run path_exists_def
        create_file_def emit_def)
  from first second show ?thesis by simp
qed

text \<open>
  Claim C4 (fault isolation) fails on the code for an engine that cannot be started:
  \<^verbatim>\<open>subprocess.run\<close> then raises OSError, which the handler of line 190
  (\<^verbatim>\<open>except subprocess.SubprocessError\<close>) does not catch, so the exception leaves
  \<^verbatim>\<open>_process_single_file\<close>, and with a single-file input it leaves
  \<^verbatim>\<open>process_audio_files\<close> as well. A non-zero exit status is caught and gives
  \<^verbatim>\<open>None\<close>.
\<close>

theorem launch_failure_leaves_process_single_file:
  "fst (process_single_file default_config (\<lambda>cmd. Launch_failure) ''in/clip.wav''
          \<lparr>fs = [(''in/clip.wav'', File)], invocations = [], logs = []\<rparr>) = Inl OSError
   \<and> fst (process_audio_files default_config (\<lambda>cmd. Launch_failure) ''in/clip.wav''
          \<lparr>fs = [(''in/clip.wav'', File)], invocations = [], logs = []\<rparr>) = Inl OSError
   \<and> fst (process_single_file default_config (\<lambda>cmd. Exit 1) ''in/clip.wav''
          \<lparr>fs = [(''in/clip.wav'', File)], invocations = [], logs = []\<rparr>) = Inr None"
proof -
  let ?w = "\<lparr>fs = [(''in/clip.wav'', File)], invocations = [], logs = []\<rparr>"
  have fresh: "\<not> path_exists (fs ?w) (base_output_path default_config ''in/clip.wav'')"
    by (simp add: eval_paths path_exists_def)
  have a: "fst (process_single_file default_config (\<lambda>cmd. Launch_failure) ''in/clip.wav'' ?w)
      = Inl OSError"
    using fresh default_chain by (rule process_single_file_launch_failure) simp
  have b: "fst (process_single_file default_config (\<lambda>cmd. Exit 1) ''in/clip.wav'' ?w) = Inr None"
    using process_single_file_nonzero_exit [OF fresh default_chain, of "\<lambda>cmd. Exit 1" 1]
    by simp
  have "is_file (fs ?w) ''in/clip.wav''"
    by (simp add: is_file_def)
  then have c: "fst (process_audio_files default_config (\<lambda>cmd. Launch_failure) ''in/clip.wav'' ?w)
      = Inl OSError"
    using a
    by (cases "process_single_file default_config (\<lambda>cmd. Launch_failure) ''in/clip.wav'' ?w")
       (simp add: process_audio_files_def)
  from a b c show ?thesis by simp
qed

end
